theory Spec2Isabelle
  imports Complex_Main "HOL-Library.Multiset"
begin

section \<open>Data model (types.ts)\<close>

text \<open>
  The interfaces of \<^verbatim>\<open>types.ts\<close> as records. A TypeScript \<^verbatim>\<open>number\<close> that arrives in an
  upstream JSON payload is a finite double and is modelled by its exact value in \<open>real\<close>;
  an optional property \<^verbatim>\<open>p?: T\<close> is a \<open>T option\<close>, \<open>None\<close> standing for \<^verbatim>\<open>undefined\<close>.
  The properties \<^verbatim>\<open>txns\<close>, \<^verbatim>\<open>volume\<close> and \<^verbatim>\<open>priceChange\<close> of a pair are declared
  mandatory, but the service reads them through \<^verbatim>\<open>?.\<close>, so they are options here too.
\<close>

record DexScreenerTokenInfo =
  address :: string
  name :: string
  symbol :: string
  decimals :: real

record txn_counts =
  buys :: real
  sells :: real

record 'a windows =
  m5 :: 'a
  h1 :: 'a
  h6 :: 'a
  h24 :: 'a

record pair_liquidity =
  usd :: "real option"
  base :: real
  quote :: real

record pair_info =
  imageUrl :: "string option"
  websites :: "(string \<times> string) list"
  socials :: "(string \<times> string) list"

record DexScreenerPair =
  chainId :: string
  dexId :: string
  url :: string
  pairAddress :: string
  labels :: "string list option"
  baseToken :: DexScreenerTokenInfo
  quoteToken :: DexScreenerTokenInfo
  priceNative :: string
  priceUsd :: "string option"
  txns :: "txn_counts windows option"
  volume :: "real windows option"
  priceChange :: "real windows option"
  liquidity :: "pair_liquidity option"
  fdv :: "real option"
  marketCap :: "real option"
  pairCreatedAt :: "real option"
  info :: "pair_info option"

record DexScreenerProfile =
  url :: string
  chainId :: string
  tokenAddress :: string
  icon :: "string option"
  header :: "string option"
  openGraph :: "string option"
  description :: "string option"
  links :: "(string \<times> string \<times> string) list option"

record DexScreenerBoostedToken =
  url :: string
  chainId :: string
  tokenAddress :: string
  amount :: real
  totalAmount :: real
  icon :: "string option"
  header :: "string option"
  description :: "string option"
  links :: "(string \<times> string \<times> string) list option"

record DexScreenerOrder =
  type :: string
  status :: string
  paymentTimestamp :: real

datatype timeframe = TF_1h | TF_6h | TF_24h

record DexScreenerTrendingParams =
  timeframe :: "timeframe option"
  limit :: "int option"

datatype sort_key = SortVolume | SortLiquidity | SortPriceChange | SortTxns

record DexScreenerChainParams =
  chain :: string
  sortBy :: "sort_key option"
  limit :: "int option"

record DexScreenerNewPairsParams =
  chain :: "string option"
  limit :: "int option"

record 'a DexScreenerServiceResponse =
  success :: bool
  data :: "'a option"
  error :: "string option"

definition ok :: "'a \<Rightarrow> 'a DexScreenerServiceResponse" where
  "ok d = \<lparr>success = True, data = Some d, error = None\<rparr>"

definition failure :: "string \<Rightarrow> 'a DexScreenerServiceResponse" where
  "failure msg = \<lparr>success = False, data = None, error = Some msg\<rparr>"


section \<open>Values of type any\<close>

text \<open>
  What \<^verbatim>\<open>response.data\<close> and its elements can be. The upstream sends JSON, so a body is
  an object of one of the interfaces above, one of the two wrapper objects
  \<^verbatim>\<open>{pairs: ...}\<close> and \<^verbatim>\<open>{pair: ...}\<close>, \<^verbatim>\<open>null\<close>, nothing at all (\<^verbatim>\<open>undefined\<close>), or an
  array of such values. \<open>Labelled x ls\<close> is the object \<^verbatim>\<open>{...x, labels: ls}\<close> that the
  new-pairs pipeline builds from a value \<open>x\<close> that is not a pair.
\<close>

datatype item =
    Undefined
  | Null
  | PairObj DexScreenerPair
  | BoostObj DexScreenerBoostedToken
  | ProfileObj DexScreenerProfile
  | OrderObj DexScreenerOrder
  | PairsBody "DexScreenerPair list option"
  | PairBody "DexScreenerPair option"
  | Labelled item "string list"

datatype payload = Single item | Array "item list"

text \<open>
  What \<^verbatim>\<open>api.get\<close> rejects with, and what a failed property read throws: an error object
  seen through the properties the catch blocks read, \<^verbatim>\<open>error.response?.data?.message\<close>
  and \<^verbatim>\<open>error.message\<close>. Both are always objects, so these reads themselves do not throw.
\<close>

datatype error_body = ErrorBody (body_message: "string option")

datatype error_response = ErrorResponse (response_data: "error_body option")

datatype js_error = JsError (err_response: "error_response option") (err_message: "string option")

text \<open>
  The TypeError of a property read on \<^verbatim>\<open>null\<close> or \<^verbatim>\<open>undefined\<close>. It has no
  \<^verbatim>\<open>response\<close>; the wording of its message is the engine's.
\<close>

definition TypeError :: "string \<Rightarrow> js_error" where
  "TypeError what = JsError None (Some (''Cannot read properties of null or undefined, reading '' @ what))"

fun nullish :: "item \<Rightarrow> bool" where
  "nullish Undefined = True"
| "nullish Null = True"
| "nullish _ = False"

text \<open>The own properties of a value that the service reads; \<open>None\<close> is \<^verbatim>\<open>undefined\<close>.\<close>

fun own_chainId :: "item \<Rightarrow> string option" where
  "own_chainId (PairObj p) = Some (DexScreenerPair.chainId p)"
| "own_chainId (BoostObj b) = Some (DexScreenerBoostedToken.chainId b)"
| "own_chainId (ProfileObj p) = Some (DexScreenerProfile.chainId p)"
| "own_chainId (Labelled x ls) = own_chainId x"
| "own_chainId _ = None"

fun own_tokenAddress :: "item \<Rightarrow> string option" where
  "own_tokenAddress (BoostObj b) = Some (DexScreenerBoostedToken.tokenAddress b)"
| "own_tokenAddress (ProfileObj p) = Some (DexScreenerProfile.tokenAddress p)"
| "own_tokenAddress (Labelled x ls) = own_tokenAddress x"
| "own_tokenAddress _ = None"

fun own_labels :: "item \<Rightarrow> string list option" where
  "own_labels (PairObj p) = labels p"
| "own_labels (Labelled x ls) = Some ls"
| "own_labels _ = None"

fun own_pairs :: "item \<Rightarrow> DexScreenerPair list option" where
  "own_pairs (PairsBody ps) = ps"
| "own_pairs (Labelled x ls) = own_pairs x"
| "own_pairs _ = None"


text \<open>
  A property read \<^verbatim>\<open>v.p\<close>: it throws a TypeError on \<^verbatim>\<open>null\<close> and \<^verbatim>\<open>undefined\<close>; an array
  has none of the properties read here.
\<close>

definition read_prop :: "(item \<Rightarrow> 'a option) \<Rightarrow> string \<Rightarrow> item \<Rightarrow> js_error + 'a option" where
  "read_prop own what v = (if nullish v then Inl (TypeError what) else Inr (own v))"

fun data_prop :: "(item \<Rightarrow> 'a option) \<Rightarrow> string \<Rightarrow> payload \<Rightarrow> js_error + 'a option" where
  "data_prop own what (Single v) = read_prop own what v"
| "data_prop own what (Array vs) = Inr None"

text \<open>\<^verbatim>\<open>Array.isArray(d) ? d : [d]\<close>\<close>

fun as_array :: "payload \<Rightarrow> item list" where
  "as_array (Array vs) = vs"
| "as_array (Single v) = [v]"

text \<open>\<^verbatim>\<open>xs.slice(0, e)\<close> for an integer \<open>e\<close>: a negative end counts from the back.\<close>

definition slice0 :: "'a list \<Rightarrow> int \<Rightarrow> 'a list" where
  "slice0 xs e = (if e < 0 then take (nat (int (length xs) + e)) xs else take (nat e) xs)"

text \<open>\<^verbatim>\<open>n || d\<close> for an optional number: \<^verbatim>\<open>undefined\<close> and \<open>0\<close> are falsy.\<close>

definition num_or :: "int option \<Rightarrow> int \<Rightarrow> int" where
  "num_or n d = (case n of None \<Rightarrow> d | Some k \<Rightarrow> if k = 0 then d else k)"

text \<open>\<^verbatim>\<open>a || b\<close> for optional strings: \<^verbatim>\<open>undefined\<close> and the empty string are falsy.\<close>

fun str_or :: "string option \<Rightarrow> string option \<Rightarrow> string option" where
  "str_or (Some (c # cs)) b = Some (c # cs)"
| "str_or a b = b"

text \<open>\<^verbatim>\<open>s.toLowerCase()\<close>, on the ASCII letters.\<close>

definition lower_char :: "char \<Rightarrow> char" where
  "lower_char c =
     (case map_of (zip ''ABCDEFGHIJKLMNOPQRSTUVWXYZ'' ''abcdefghijklmnopqrstuvwxyz'') c of
        None \<Rightarrow> c | Some l \<Rightarrow> l)"

definition toLowerCase :: "string \<Rightarrow> string" where
  "toLowerCase s = map lower_char s"

text \<open>A template literal prints \<^verbatim>\<open>undefined\<close> as the word.\<close>

fun interpolate :: "string option \<Rightarrow> string" where
  "interpolate None = ''undefined''"
| "interpolate (Some s) = s"

text \<open>\<^verbatim>\<open>xs[0]\<close>\<close>

fun first :: "item list \<Rightarrow> item" where
  "first [] = Undefined"
| "first (x # xs) = x"

text \<open>\<^verbatim>\<open>xs.join(',')\<close> on strings.\<close>

fun join_comma :: "string list \<Rightarrow> string" where
  "join_comma [] = []"
| "join_comma [x] = x"
| "join_comma (x # y # ys) = x @ '','' @ join_comma (y # ys)"

text \<open>
  \<^verbatim>\<open>xs.sort(cmp)\<close>. The built-in is stable and, for a comparator that is consistent (as
  the differences of a numeric key below are), returns the one stably sorted array; it is
  modelled by the stable insertion sort. Only the sign of \<open>cmp\<close> is looked at.
\<close>

fun insert_sorted :: "('a \<Rightarrow> 'a \<Rightarrow> real) \<Rightarrow> 'a \<Rightarrow> 'a list \<Rightarrow> 'a list" where
  "insert_sorted cmp x [] = [x]"
| "insert_sorted cmp x (y # ys) =
     (if cmp x y \<le> 0 then x # y # ys else y # insert_sorted cmp x ys)"

definition js_sort :: "('a \<Rightarrow> 'a \<Rightarrow> real) \<Rightarrow> 'a list \<Rightarrow> 'a list" where
  "js_sort cmp xs = foldr (insert_sorted cmp) xs []"



section \<open>The client (service.ts)\<close>

text \<open>
  A request is the URL given to \<^verbatim>\<open>api.get\<close> and the \<^verbatim>\<open>q\<close> parameter when there is one.
  The upstream answers the \<open>n\<close>-th request of a client with a latency in milliseconds and
  either a rejection or a response body.

  The state is the two fields of the service that matter, \<^verbatim>\<open>dexConfig.rateLimitDelay\<close>
  and \<^verbatim>\<open>lastRequestTime\<close>, together with what the service observes of its environment:
  the clock that \<^verbatim>\<open>Date.now()\<close> reads, and the requests sent so far, each with the clock
  at the moment it was sent.
\<close>

datatype request = Get (target: string) (q_param: "string option")

type_synonym upstream = "nat \<Rightarrow> request \<Rightarrow> nat \<times> (js_error + payload)"

record client =
  rateLimitDelay :: int
  lastRequestTime :: int
  clock :: int
  calls :: "(int \<times> request) list"

text \<open>
  The constructor, given the number read from the setting
  \<^verbatim>\<open>DEXSCREENER_RATE_LIMIT_DELAY\<close> when it is present, and the clock.
\<close>

definition new_client :: "int option \<Rightarrow> int \<Rightarrow> client" where
  "new_client setting now =
     \<lparr>rateLimitDelay = (case setting of None \<Rightarrow> 100 | Some d \<Rightarrow> d),
      lastRequestTime = 0, clock = now, calls = []\<rparr>"

text \<open>\<^verbatim>\<open>await new Promise(resolve => setTimeout(resolve, ms))\<close>\<close>

definition sleep :: "int \<Rightarrow> client \<Rightarrow> client" where
  "sleep ms s = s\<lparr>clock := clock s + ms\<rparr>"

definition rateLimit :: "client \<Rightarrow> client" where
  "rateLimit s =
     (let now = clock s;
          timeSinceLastRequest = now - lastRequestTime s;
          s' = (if timeSinceLastRequest < rateLimitDelay s
                then sleep (rateLimitDelay s - timeSinceLastRequest) s else s)
      in s'\<lparr>lastRequestTime := clock s'\<rparr>)"

text \<open>
  \<^verbatim>\<open>this.api.get(...)\<close> sends the request at once; \<open>api_get\<close> is the awaited call, which
  resumes when the answer is there.
\<close>

definition api_send :: "upstream \<Rightarrow> request \<Rightarrow> client \<Rightarrow> (js_error + payload) \<times> nat \<times> client" where
  "api_send up req s =
     (let (latency, outcome) = up (length (calls s)) req
      in (outcome, latency, s\<lparr>calls := calls s @ [(clock s, req)]\<rparr>))"

definition api_get :: "upstream \<Rightarrow> request \<Rightarrow> client \<Rightarrow> (js_error + payload) \<times> client" where
  "api_get up req s =
     (let (outcome, latency, s') = api_send up req s
      in (outcome, s'\<lparr>clock := clock s' + int latency\<rparr>))"

text \<open>
  \<^verbatim>\<open>error.response?.data?.message || error.message || fallback\<close>, the message of every
  catch block.
\<close>

definition upstream_message :: "js_error \<Rightarrow> string option" where
  "upstream_message e =
     (case err_response e of
        None \<Rightarrow> None
      | Some r \<Rightarrow> (case response_data r of None \<Rightarrow> None | Some d \<Rightarrow> body_message d))"

definition error_text :: "js_error \<Rightarrow> string \<Rightarrow> string" where
  "error_text e fallback =
     (case str_or (str_or (upstream_message e) (err_message e)) (Some fallback) of
        None \<Rightarrow> [] | Some m \<Rightarrow> m)"

text \<open>\<^verbatim>\<open>response.data.pairs || []\<close>\<close>

definition data_pairs :: "payload \<Rightarrow> js_error + DexScreenerPair list" where
  "data_pairs d =
     (case data_prop own_pairs ''pairs'' d of
        Inl e \<Rightarrow> Inl e
      | Inr None \<Rightarrow> Inr []
      | Inr (Some ps) \<Rightarrow> Inr ps)"

definition search :: "upstream \<Rightarrow> string \<Rightarrow> client \<Rightarrow> DexScreenerPair list DexScreenerServiceResponse \<times> client" where
  "search up query s =
     (let s1 = rateLimit s;
          (response, s2) = api_get up (Get ''/latest/dex/search'' (Some query)) s1
      in (case response of
            Inl e \<Rightarrow> failure (error_text e ''Failed to search tokens'')
          | Inr d \<Rightarrow>
              (case data_pairs d of
                 Inl e \<Rightarrow> failure (error_text e ''Failed to search tokens'')
               | Inr pairs \<Rightarrow> ok pairs), s2))"



text \<open>
  The fan-out of \<^verbatim>\<open>getTrending\<close> and \<^verbatim>\<open>getNewPairs\<close>: \<^verbatim>\<open>tokens.map(async (t) => ...)\<close> runs
  each callback up to its first \<^verbatim>\<open>await\<close>, so every request of the fan-out is sent, in the
  order of the tokens, before any answer is awaited; \<^verbatim>\<open>Promise.all\<close> resumes when the
  slowest answer is there.
\<close>

fun fan_out :: "(item \<Rightarrow> client \<Rightarrow> item \<times> nat \<times> client) \<Rightarrow> item list \<Rightarrow> client \<Rightarrow> item list \<times> nat \<times> client" where
  "fan_out f [] s = ([], 0, s)"
| "fan_out f (t # ts) s =
     (let (r, l, s1) = f t s;
          (rs, m, s2) = fan_out f ts s1
      in (r # rs, max l m, s2))"

definition promise_all :: "item list \<times> nat \<times> client \<Rightarrow> item list \<times> client" where
  "promise_all x = (let (rs, m, s) = x in (rs, s\<lparr>clock := clock s + int m\<rparr>))"

text \<open>\<^verbatim>\<open>`/tokens/v1/${token.chainId}/${token.tokenAddress}`\<close>\<close>

definition tokens_v1_url :: "item \<Rightarrow> js_error + string" where
  "tokens_v1_url token =
     (case read_prop own_chainId ''chainId'' token of
        Inl e \<Rightarrow> Inl e
      | Inr c \<Rightarrow>
          (case read_prop own_tokenAddress ''tokenAddress'' token of
             Inl e \<Rightarrow> Inl e
           | Inr a \<Rightarrow> Inr (''/tokens/v1/'' @ interpolate c @ ''/'' @ interpolate a)))"

text \<open>
  The callback of the fan-out in \<^verbatim>\<open>getTrending\<close>, with its own try and catch:
  \<^verbatim>\<open>Array.isArray(pairResponse.data) ? pairResponse.data[0] : null\<close> for an answer, and
  \<^verbatim>\<open>null\<close> when the request is rejected or the URL cannot be built.
\<close>

fun first_pair_of :: "js_error + payload \<Rightarrow> item" where
  "first_pair_of (Inl e) = Null"
| "first_pair_of (Inr (Array ps)) = first ps"
| "first_pair_of (Inr (Single v)) = Null"

definition trending_lookup :: "upstream \<Rightarrow> item \<Rightarrow> client \<Rightarrow> item \<times> nat \<times> client" where
  "trending_lookup up token s =
     (case tokens_v1_url token of
        Inl e \<Rightarrow> (Null, 0, s)
      | Inr u \<Rightarrow>
          (let (pairResponse, latency, s') = api_send up (Get u None) s
           in (first_pair_of pairResponse, latency, s')))"

text \<open>
  For statements about the fan-out: the URL built for a token that is neither \<^verbatim>\<open>null\<close>
  nor \<^verbatim>\<open>undefined\<close>, and the entry that the \<open>i\<close>-th token of a list contributes, which is
  \<^verbatim>\<open>null\<close> for a token without a URL and otherwise the first pair of the answer to its
  request; that request comes after the \<open>sent\<close> requests made before the fan-out and
  those of the earlier tokens.
\<close>

definition tokens_v1_path :: "item \<Rightarrow> string" where
  "tokens_v1_path token =
     ''/tokens/v1/'' @ interpolate (own_chainId token) @ ''/'' @ interpolate (own_tokenAddress token)"

definition requests_before :: "nat \<Rightarrow> item list \<Rightarrow> nat" where
  "requests_before i tokens = length (filter (\<lambda>v. \<not> nullish v) (take i tokens))"



definition getTrending :: "upstream \<Rightarrow> DexScreenerTrendingParams \<Rightarrow> client \<Rightarrow> item list DexScreenerServiceResponse \<times> client" where
  "getTrending up params s =
     (let s1 = rateLimit s;
          (boosted, s2) = api_get up (Get ''/token-boosts/top/v1'' None) s1
      in (case boosted of
            Inl e \<Rightarrow> (failure (error_text e ''Failed to get trending pairs''), s2)
          | Inr d \<Rightarrow>
              (let boostedTokens = as_array d;
                   (results, s3) = promise_all (fan_out (trending_lookup up)
                      (slice0 boostedTokens (num_or (DexScreenerTrendingParams.limit params) 10)) s2);
                   pairs = filter (\<lambda>pair. pair \<noteq> Null) results
               in (ok pairs, s3))))"

text \<open>
  The comparators of \<^verbatim>\<open>getPairsByChain\<close>. \<^verbatim>\<open>(b.volume?.h24 || 0)\<close> and the like read a
  metric, absent ones counting 0; \<^verbatim>\<open>b.txns?.h24.buys + b.txns?.h24.sells || 0\<close> is the sum
  of the two counts, \<^verbatim>\<open>NaN\<close> (no \<^verbatim>\<open>txns\<close>) counting 0.
\<close>

fun metric :: "sort_key \<Rightarrow> DexScreenerPair \<Rightarrow> real" where
  "metric SortVolume p = (case volume p of None \<Rightarrow> 0 | Some v \<Rightarrow> h24 v)"
| "metric SortLiquidity p =
     (case liquidity p of None \<Rightarrow> 0 | Some l \<Rightarrow> (case usd l of None \<Rightarrow> 0 | Some u \<Rightarrow> u))"
| "metric SortPriceChange p = (case priceChange p of None \<Rightarrow> 0 | Some c \<Rightarrow> h24 c)"
| "metric SortTxns p = (case txns p of None \<Rightarrow> 0 | Some t \<Rightarrow> buys (h24 t) + sells (h24 t))"

definition compare_by :: "sort_key \<Rightarrow> DexScreenerPair \<Rightarrow> DexScreenerPair \<Rightarrow> real" where
  "compare_by k a b = metric k b - metric k a"

definition getPairsByChain :: "upstream \<Rightarrow> DexScreenerChainParams \<Rightarrow> client \<Rightarrow> DexScreenerPair list DexScreenerServiceResponse \<times> client" where
  "getPairsByChain up params s =
     (let s1 = rateLimit s;
          (found, s2) = api_get up (Get ''/latest/dex/search'' (Some (DexScreenerChainParams.chain params))) s1
      in (case found of
            Inl e \<Rightarrow> failure (error_text e ''Failed to get pairs by chain'')
          | Inr d \<Rightarrow>
              (case data_pairs d of
                 Inl e \<Rightarrow> failure (error_text e ''Failed to get pairs by chain'')
               | Inr all_pairs \<Rightarrow>
                   (let pairs = filter (\<lambda>pair. toLowerCase (DexScreenerPair.chainId pair)
                                  = toLowerCase (DexScreenerChainParams.chain params)) all_pairs;
                        pairs = (case sortBy params of
                                   None \<Rightarrow> pairs
                                 | Some k \<Rightarrow> js_sort (compare_by k) pairs);
                        limitedPairs =
                          (case DexScreenerChainParams.limit params of
                             None \<Rightarrow> slice0 pairs 20
                           | Some n \<Rightarrow> if n = 0 then slice0 pairs 20 else slice0 pairs n)
                    in ok limitedPairs)), s2))"

text \<open>
  \<^verbatim>\<open>profiles.filter(p => p.chainId?.toLowerCase() === params.chain.toLowerCase())\<close>: the
  read of \<^verbatim>\<open>p.chainId\<close> throws on a \<^verbatim>\<open>null\<close> element, which ends the filter.
\<close>

fun filter_chain :: "string \<Rightarrow> item list \<Rightarrow> js_error + item list" where
  "filter_chain c [] = Inr []"
| "filter_chain c (p # ps) =
     (case read_prop own_chainId ''chainId'' p of
        Inl e \<Rightarrow> Inl e
      | Inr cid \<Rightarrow>
          (case filter_chain c ps of
             Inl e \<Rightarrow> Inl e
           | Inr rest \<Rightarrow>
               Inr (if map_option toLowerCase cid = Some (toLowerCase c) then p # rest else rest)))"

text \<open>\<^verbatim>\<open>{...x, labels: ls}\<close>\<close>

fun set_labels :: "item \<Rightarrow> string list \<Rightarrow> item" where
  "set_labels (PairObj p) ls = PairObj (p\<lparr>labels := Some ls\<rparr>)"
| "set_labels (Labelled x old) ls = Labelled x ls"
| "set_labels x ls = Labelled x ls"

text \<open>
  \<^verbatim>\<open>{...p, labels: p.labels?.includes('new') ? p.labels : [...(p.labels || []), 'new']}\<close>
\<close>

definition with_new_label :: "item \<Rightarrow> js_error + item" where
  "with_new_label p =
     (case read_prop own_labels ''labels'' p of
        Inl e \<Rightarrow> Inl e
      | Inr None \<Rightarrow> Inr (set_labels p [''new''])
      | Inr (Some ls) \<Rightarrow> Inr (set_labels p (if ''new'' \<in> set ls then ls else ls @ [''new''])))"

text \<open>
  The callback of the fan-out in \<^verbatim>\<open>getNewPairs\<close>: the first pair of a non-empty array,
  labelled, and \<^verbatim>\<open>null\<close> otherwise.
\<close>

fun new_pair_of :: "js_error + payload \<Rightarrow> item" where
  "new_pair_of (Inl e) = Null"
| "new_pair_of (Inr (Single v)) = Null"
| "new_pair_of (Inr (Array [])) = Null"
| "new_pair_of (Inr (Array (p # ps))) =
     (case with_new_label p of Inl e \<Rightarrow> Null | Inr labelled \<Rightarrow> labelled)"

definition new_pair_lookup :: "upstream \<Rightarrow> item \<Rightarrow> client \<Rightarrow> item \<times> nat \<times> client" where
  "new_pair_lookup up profile s =
     (case tokens_v1_url profile of
        Inl e \<Rightarrow> (Null, 0, s)
      | Inr u \<Rightarrow>
          (let (pairResponse, latency, s') = api_send up (Get u None) s
           in (new_pair_of pairResponse, latency, s')))"

definition getNewPairs :: "upstream \<Rightarrow> DexScreenerNewPairsParams \<Rightarrow> client \<Rightarrow> item list DexScreenerServiceResponse \<times> client" where
  "getNewPairs up params s =
     (let s1 = rateLimit s;
          (latest, s2) = api_get up (Get ''/token-profiles/latest/v1'' None) s1
      in (case latest of
            Inl e \<Rightarrow> (failure (error_text e ''Failed to get new pairs''), s2)
          | Inr d \<Rightarrow>
              (let profiles = as_array d
               in (case (case DexScreenerNewPairsParams.chain params of
                           None \<Rightarrow> Inr profiles
                         | Some [] \<Rightarrow> Inr profiles
                         | Some (c # cs) \<Rightarrow> filter_chain (c # cs) profiles) of
                     Inl e \<Rightarrow> (failure (error_text e ''Failed to get new pairs''), s2)
                   | Inr filteredProfiles \<Rightarrow>
                       (let (results, s3) = promise_all (fan_out (new_pair_lookup up)
                              (slice0 filteredProfiles (num_or (DexScreenerNewPairsParams.limit params) 10)) s2);
                            pairs = filter (\<lambda>pair. pair \<noteq> Null) results
                        in (ok pairs, s3))))))"



text \<open>\<^verbatim>\<open>response.data || []\<close>\<close>

fun data_or_empty :: "payload \<Rightarrow> payload" where
  "data_or_empty (Single v) = (if nullish v then Array [] else Single v)"
| "data_or_empty (Array vs) = Array vs"

definition getMultipleTokens :: "upstream \<Rightarrow> string \<Rightarrow> string list \<Rightarrow> client \<Rightarrow> payload DexScreenerServiceResponse \<times> client" where
  "getMultipleTokens up chain_id tokenAddresses s =
     (if length tokenAddresses > 30 then (failure ''Maximum 30 token addresses allowed'', s)
      else
        (let s1 = rateLimit s;
             addresses = join_comma tokenAddresses;
             (batch, s2) = api_get up (Get (''/tokens/v1/'' @ chain_id @ ''/'' @ addresses) None) s1
         in (case batch of
               Inl e \<Rightarrow> failure (error_text e ''Failed to get multiple tokens'')
             | Inr d \<Rightarrow> ok (data_or_empty d), s2)))"






text \<open>
  Every asynchronous operation of the client, with its arguments, for statements about all
  of them: the request it sends first (none when \<^verbatim>\<open>getMultipleTokens\<close> refuses the list),
  the fixed message of its catch block, and the envelope it resolves to, seen through
  \<^verbatim>\<open>success\<close> and \<^verbatim>\<open>error\<close>.
\<close>

datatype operation =
    Search string
  | GetTokenPairs string
  | GetPair string
  | GetTrending DexScreenerTrendingParams
  | GetPairsByChain DexScreenerChainParams
  | GetNewPairs DexScreenerNewPairsParams
  | GetTokenProfile string
  | GetMultipleTokens string "string list"
  | GetLatestTokenProfiles
  | GetLatestBoostedTokens
  | GetTopBoostedTokens
  | CheckOrderStatus string string
  | GetTokenPairsByChain string string




fun fallback :: "operation \<Rightarrow> string" where
  "fallback (Search query) = ''Failed to search tokens''"
| "fallback (GetTokenPairs a) = ''Failed to get token pairs''"
| "fallback (GetPair a) = ''Failed to get pair''"
| "fallback (GetTrending params) = ''Failed to get trending pairs''"
| "fallback (GetPairsByChain params) = ''Failed to get pairs by chain''"
| "fallback (GetNewPairs params) = ''Failed to get new pairs''"
| "fallback (GetTokenProfile a) = ''Failed to get token profile''"
| "fallback (GetMultipleTokens c as) = ''Failed to get multiple tokens''"
| "fallback GetLatestTokenProfiles = ''Failed to get latest token profiles''"
| "fallback GetLatestBoostedTokens = ''Failed to get latest boosted tokens''"
| "fallback GetTopBoostedTokens = ''Failed to get top boosted tokens''"
| "fallback (CheckOrderStatus c a) = ''Failed to check order status''"
| "fallback (GetTokenPairsByChain c a) = ''Failed to get token pairs by chain''"


section \<open>The formatter \<^verbatim>\<open>formatPrice\<close>\<close>

text \<open>
  The argument of \<^verbatim>\<open>formatPrice\<close> is any number, so beside the finite doubles (by their
  exact values) there are \<^verbatim>\<open>NaN\<close> and the two infinities, which \<^verbatim>\<open>parseFloat\<close> can return.
\<close>

datatype number = Finite real | NaN | PosInfinity | NegInfinity

text \<open>
  \<^verbatim>\<open>x >= c\<close> for a finite constant \<open>c\<close>. The source compares with the double nearest to
  0.01; no double lies between it and 1/100, so on doubles the test is that of 1/100.
\<close>

fun num_ge :: "number \<Rightarrow> real \<Rightarrow> bool" where
  "num_ge (Finite r) c = (c \<le> r)"
| "num_ge PosInfinity c = True"
| "num_ge NaN c = False"
| "num_ge NegInfinity c = False"

definition digit_char :: "nat \<Rightarrow> char" where
  "digit_char d = ''0123456789'' ! d"

fun decimal :: "nat \<Rightarrow> string" where
  "decimal n = (if n < 10 then [digit_char n] else decimal (n div 10) @ [digit_char (n mod 10)])"

declare decimal.simps [simp del]

text \<open>
  \<^verbatim>\<open>x.toFixed(f)\<close> as ECMA-262 defines it, for \<open>f\<close> from 1 to 100. A value that is not
  finite prints as its name. Otherwise the sign is split off; a magnitude of \<open>10\<^sup>2\<^sup>1\<close> or
  more prints as \<^verbatim>\<open>String(x)\<close> does, which is the parameter \<open>numToString\<close> here; a smaller one
  prints the integer \<open>n\<close> nearest to \<open>x \<sqdot> 10\<^sup>f\<close> (the larger of two) with a point before
  its last \<open>f\<close> digits, padded with zeros to \<open>f + 1\<close> digits.
\<close>

definition toFixed :: "(real \<Rightarrow> string) \<Rightarrow> number \<Rightarrow> nat \<Rightarrow> string" where
  "toFixed numToString x f =
     (case x of
        NaN \<Rightarrow> ''NaN''
      | PosInfinity \<Rightarrow> ''Infinity''
      | NegInfinity \<Rightarrow> ''-Infinity''
      | Finite r \<Rightarrow>
          (let sign = (if r < 0 then ''-'' else []);
               a = \<bar>r\<bar>
           in if 10 ^ 21 \<le> a then sign @ numToString a
              else
                (let n = nat \<lfloor>a * 10 ^ f + 1 / 2\<rfloor>;
                     m = decimal n;
                     m = (if length m \<le> f then replicate (f + 1 - length m) CHR ''0'' @ m else m);
                     k = length m
                 in sign @ take (k - f) m @ ''.'' @ drop (k - f) m)))"

text \<open>\<^verbatim>\<open>parseFloat\<close> is a parameter too.\<close>

definition formatPrice :: "(string \<Rightarrow> number) \<Rightarrow> (real \<Rightarrow> string) \<Rightarrow> string + number \<Rightarrow> string" where
  "formatPrice parseFloat numToString price =
     (let numPrice = (case price of Inl text \<Rightarrow> parseFloat text | Inr n \<Rightarrow> n)
      in if num_ge numPrice 1 then toFixed numToString numPrice 2
         else if num_ge numPrice (1 / 100) then toFixed numToString numPrice 4
         else toFixed numToString numPrice 8)"

text \<open>
  The digits after the decimal point of a rendered number: \<open>None\<close> when there is no point
  or when something other than digits follows it.
\<close>

definition is_digit :: "char \<Rightarrow> bool" where
  "is_digit c = (c \<in> set ''0123456789'')"

definition fraction_digits :: "string \<Rightarrow> nat option" where
  "fraction_digits text =
     (case dropWhile (\<lambda>c. c \<noteq> CHR ''.'') text of
        [] \<Rightarrow> None
      | point # ds \<Rightarrow> if list_all is_digit ds then Some (length ds) else None)"


section \<open>The actions (actions.ts)\<close>

text \<open>
  The handlers of the token-info and trending actions. The text of a response is a fixed
  template filled from a few values; a response is modelled by the template chosen and
  those values, in the order the text shows them.
\<close>




text \<open>\<^verbatim>\<open>(p.liquidity?.usd || 0)\<close>\<close>

definition liquidity_usd :: "DexScreenerPair \<Rightarrow> real" where
  "liquidity_usd p =
     (case liquidity p of None \<Rightarrow> 0 | Some l \<Rightarrow> (case usd l of None \<Rightarrow> 0 | Some u \<Rightarrow> u))"



text \<open>
  The trending handler, from the two matches on the message text: which of the three
  alternatives \<^verbatim>\<open>/\b(1h|6h|24h)\b/\<close> found, and the number captured by \<^verbatim>\<open>/top\s+(\d+)/i\<close>. Each entry of the
  list is rendered from one pair by reading \<^verbatim>\<open>pair.priceChange.h24\<close>, \<^verbatim>\<open>pair.volume.h24\<close>,
  \<^verbatim>\<open>pair.txns.h24\<close> and the two tokens, which throws when one of them is missing.
\<close>

fun as_pair :: "item \<Rightarrow> DexScreenerPair option" where
  "as_pair (PairObj p) = Some p"
| "as_pair (Labelled x ls) = map_option (\<lambda>p. p\<lparr>labels := Some ls\<rparr>) (as_pair x)"
| "as_pair _ = None"

definition render_trending :: "item \<Rightarrow> js_error + DexScreenerPair" where
  "render_trending v =
     (case as_pair v of
        None \<Rightarrow> Inl (TypeError ''h24'')
      | Some p \<Rightarrow>
          if priceChange p = None \<or> volume p = None \<or> txns p = None then Inl (TypeError ''h24'')
          else Inr p)"

fun render_all :: "item list \<Rightarrow> js_error + DexScreenerPair list" where
  "render_all [] = Inr []"
| "render_all (v # vs) =
     (case render_trending v of
        Inl e \<Rightarrow> Inl e
      | Inr p \<Rightarrow> (case render_all vs of Inl e \<Rightarrow> Inl e | Inr ps \<Rightarrow> Inr (p # ps)))"

fun timeframe_text :: "timeframe \<Rightarrow> string" where
  "timeframe_text TF_1h = ''1h''"
| "timeframe_text TF_6h = ''6h''"
| "timeframe_text TF_24h = ''24h''"

datatype trending_response =
    FailedTrending "string option"
  | TrendingTokens (heading: string) (trendingList: "DexScreenerPair list") (trending_data: "item list")

definition getTrending_handler :: "upstream \<Rightarrow> timeframe option \<Rightarrow> int option \<Rightarrow> client \<Rightarrow> (js_error + trending_response) \<times> client" where
  "getTrending_handler up timeframeMatch limitMatch s =
     (let (result, s') = getTrending up
            \<lparr>timeframe = Some (case timeframeMatch of None \<Rightarrow> TF_24h | Some t \<Rightarrow> t),
             limit = Some (case limitMatch of None \<Rightarrow> 10 | Some n \<Rightarrow> n)\<rparr> s
      in (if \<not> success result then Inr (FailedTrending (error result))
          else case data result of
             None \<Rightarrow> Inr (FailedTrending (error result))
           | Some pairs \<Rightarrow>
               (case render_all pairs of
                  Inl e \<Rightarrow> Inl e
                | Inr entries \<Rightarrow>
                    Inr (TrendingTokens
                           (case timeframeMatch of None \<Rightarrow> ''24h'' | Some t \<Rightarrow> timeframe_text t)
                           entries pairs)), s'))"


text \<open>A response of the trending handler with its heading blanked.\<close>

fun without_heading :: "trending_response \<Rightarrow> trending_response" where
  "without_heading (FailedTrending e) = FailedTrending e"
| "without_heading (TrendingTokens h entries d) = TrendingTokens [] entries d"


section \<open>Example inputs\<close>

text \<open>
  Concrete pairs, promoted tokens and upstreams, in the style of the mocks of
  \<^verbatim>\<open>service.test.ts\<close>: \<open>mock_upstream\<close> answers the \<open>n\<close>-th request with the \<open>n\<close>-th entry of
  a list, whatever is asked, and rejects once the list is used up.
\<close>

definition example_token :: "string \<Rightarrow> string \<Rightarrow> DexScreenerTokenInfo" where
  "example_token a ticker = \<lparr>address = a, name = ticker, symbol = ticker, decimals = 18\<rparr>"

definition example_pair :: "string \<Rightarrow> string \<Rightarrow> real \<Rightarrow> DexScreenerPair" where
  "example_pair c ticker liq =
     \<lparr>DexScreenerPair.chainId = c, dexId = ''uniswap'', url = ''https://dexscreener.com/'' @ c,
      pairAddress = ''0xpair'', labels = None,
      baseToken = example_token ''0x123'' ticker, quoteToken = example_token ''0xc02a'' ''WETH'',
      priceNative = ''0.0005'', priceUsd = Some ''1.5'',
      txns = Some \<lparr>m5 = \<lparr>buys = 1, sells = 0\<rparr>, h1 = \<lparr>buys = 4, sells = 2\<rparr>,
                    h6 = \<lparr>buys = 9, sells = 7\<rparr>, h24 = \<lparr>buys = 30, sells = 12\<rparr>\<rparr>,
      volume = Some \<lparr>m5 = 10, h1 = 200, h6 = 3000, h24 = liq / 2\<rparr>,
      priceChange = Some \<lparr>m5 = 0, h1 = 1, h6 = - 2, h24 = 5\<rparr>,
      liquidity = Some \<lparr>usd = Some liq, base = 1, quote = 1\<rparr>,
      fdv = None, marketCap = None, pairCreatedAt = None, info = None\<rparr>"

definition example_boost :: "string \<Rightarrow> string \<Rightarrow> DexScreenerBoostedToken" where
  "example_boost c a =
     \<lparr>url = ''https://dexscreener.com/'' @ c @ ''/'' @ a, chainId = c, tokenAddress = a,
      amount = 100, totalAmount = 1000, icon = None, header = None, description = None,
      links = None\<rparr>"

definition NetworkError :: js_error where
  "NetworkError = JsError None (Some ''Network Error'')"

definition mock_upstream :: "nat \<Rightarrow> (js_error + payload) list \<Rightarrow> upstream" where
  "mock_upstream latency answers n req =
     (latency, if n < length answers then answers ! n else Inl NetworkError)"

definition pepe :: DexScreenerPair where
  "pepe = example_pair ''ethereum'' ''PEPE'' 1000000"

definition shib :: DexScreenerPair where
  "shib = example_pair ''ethereum'' ''SHIB'' 500000"

text \<open>The mock of the test "should return trending pairs", answering after 250 ms.\<close>

definition trending_mock :: upstream where
  "trending_mock = mock_upstream 250
     [Inr (Array [BoostObj (example_boost ''ethereum'' ''0x123''),
                  BoostObj (example_boost ''ethereum'' ''0x456'')]),
      Inr (Array [PairObj pepe]),
      Inr (Array [PairObj shib])]"



definition example_profile :: "string \<Rightarrow> string \<Rightarrow> DexScreenerProfile" where
  "example_profile c a =
     \<lparr>DexScreenerProfile.url = ''https://dexscreener.com/'' @ c @ ''/'' @ a, chainId = c,
      tokenAddress = a, icon = None, header = None, openGraph = None, description = None, links = None\<rparr>"

text \<open>One latest profile, whose pair lookup answers with one pair without labels.\<close>

definition new_pairs_mock :: upstream where
  "new_pairs_mock = mock_upstream 250
     [Inr (Array [ProfileObj (example_profile ''ethereum'' ''0x123'')]),
      Inr (Array [PairObj pepe])]"


definition weth_usdc :: DexScreenerPair where
  "weth_usdc = example_pair ''Ethereum'' ''USDC'' 750000"

definition cake :: DexScreenerPair where
  "cake = example_pair ''bsc'' ''CAKE'' 2000000"

text \<open>A search answer with four pairs, one of them on another chain.\<close>

definition pairs_mock :: upstream where
  "pairs_mock = mock_upstream 250 [Inr (Single (PairsBody (Some [shib, cake, pepe, weth_usdc])))]"



text \<open>
  Stand-ins for the two built-ins that \<open>formatPrice\<close> takes as parameters:
  a \<^verbatim>\<open>parseFloat\<close> that knows the string "1.5", and \<^verbatim>\<open>String\<close> at \<open>10\<^sup>2\<^sup>1\<close>, the one argument
  it is used at.
\<close>

definition parseFloat_example :: "string \<Rightarrow> number" where
  "parseFloat_example text = (if text = ''1.5'' then Finite (3 / 2) else NaN)"

definition String_at_1e21 :: "real \<Rightarrow> string" where
  "String_at_1e21 x = ''1e+21''"






section \<open>Auxiliary facts\<close>

lemma rateLimit_calls [simp]: "calls (rateLimit s) = calls s"
  by (simp add: rateLimit_def sleep_def Let_def)

lemma rateLimit_rateLimitDelay [simp]: "rateLimitDelay (rateLimit s) = rateLimitDelay s"
  by (simp add: rateLimit_def sleep_def Let_def)

lemma api_get_eq:
  "api_get up req s = (snd (up (length (calls s)) req),
     s\<lparr>calls := calls s @ [(clock s, req)], clock := clock s + int (fst (up (length (calls s)) req))\<rparr>)"
  by (simp add: api_get_def api_send_def Let_def split: prod.splits)

lemma tokens_v1_url_eq:
  "tokens_v1_url token = (if nullish token then Inl (TypeError ''chainId'') else Inr (tokens_v1_path token))"
  by (simp add: tokens_v1_url_def tokens_v1_path_def read_prop_def)


lemma lookup_state:
  "snd (snd (trending_lookup up token s)) =
     (if nullish token then s else s\<lparr>calls := calls s @ [(clock s, Get (tokens_v1_path token) None)]\<rparr>)"
  "snd (snd (new_pair_lookup up token s)) =
     (if nullish token then s else s\<lparr>calls := calls s @ [(clock s, Get (tokens_v1_path token) None)]\<rparr>)"
  by (simp_all add: trending_lookup_def new_pair_lookup_def tokens_v1_url_eq api_send_def Let_def
        split: prod.splits)

lemma fan_out_Cons:
  "fst (fan_out f (t # ts) s) = fst (f t s) # fst (fan_out f ts (snd (snd (f t s))))"
  "snd (snd (fan_out f (t # ts) s)) = snd (snd (fan_out f ts (snd (snd (f t s)))))"
  by (simp_all add: Let_def split: prod.splits)


lemma fan_out_state:
  assumes "\<And>t s. snd (snd (f t s)) =
     (if nullish t then s else s\<lparr>calls := calls s @ [(clock s, Get (tokens_v1_path t) None)]\<rparr>)"
  shows "snd (snd (fan_out f ts s))
     = s\<lparr>calls := calls s @ map (\<lambda>t. (clock s, Get (tokens_v1_path t) None)) (filter (\<lambda>v. \<not> nullish v) ts)\<rparr>"
proof (induction ts arbitrary: s)
  case Nil
  then show ?case by simp
next
  case (Cons t ts)
  show ?case
    by (cases "nullish t") (simp_all add: fan_out_Cons assms Cons.IH del: fan_out.simps(2))
qed

lemma requests_before_0 [simp]: "requests_before 0 ts = 0"
  by (simp add: requests_before_def)

lemma requests_before_Suc [simp]:
  "requests_before (Suc i) (t # ts) = (if nullish t then 0 else 1) + requests_before i ts"
  by (simp add: requests_before_def)



lemma promise_all_eq:
  "promise_all x = (fst x, (snd (snd x))\<lparr>clock := clock (snd (snd x)) + int (fst (snd x))\<rparr>)"
  by (simp add: promise_all_def split: prod.splits)





lemma tokens_v1_path_boost [simp]:
  "tokens_v1_path (BoostObj (example_boost c a)) = ''/tokens/v1/'' @ c @ ''/'' @ a"
  by (simp add: tokens_v1_path_def example_boost_def)

lemma new_pair_lookup_fst:
  "fst (new_pair_lookup up token s) =
     (if nullish token then Null
      else new_pair_of (snd (up (length (calls s)) (Get (tokens_v1_path token) None))))"
  by (simp add: new_pair_lookup_def tokens_v1_url_eq api_send_def Let_def split: prod.splits)

lemma fan_out_set:
  "v \<in> set (fst (fan_out f ts s)) \<Longrightarrow> \<exists>t s'. v = fst (f t s')"
proof (induction ts arbitrary: s)
  case Nil
  then show ?case by simp
next
  case (Cons t ts)
  then show ?case
    by (auto simp: fan_out_Cons simp del: fan_out.simps(2))
qed

lemma own_labels_set_labels [simp]: "own_labels (set_labels p ls) = Some ls"
  by (cases p) simp_all

lemma with_new_label_labels:
  assumes "with_new_label p = Inr v"
  shows "\<exists>ls. own_labels v = Some ls \<and> ''new'' \<in> set ls
           \<and> ls = (case own_labels p of
                     None \<Rightarrow> [''new'']
                   | Some old \<Rightarrow> if ''new'' \<in> set old then old else old @ [''new''])"
  using assms
  by (auto simp: with_new_label_def read_prop_def split: if_splits option.splits)

lemma with_new_label_untouched:
  assumes "with_new_label (PairObj q) = Inr v" and "labels q = Some old" and "''new'' \<in> set old"
  shows "v = PairObj q"
  using assms by (auto simp: with_new_label_def read_prop_def)

lemma new_pair_of_cases:
  assumes "new_pair_of a = v" and "v \<noteq> Null"
  shows "\<exists>p rest. a = Inr (Array (p # rest)) \<and> with_new_label p = Inr v"
  using assms by (induction a rule: new_pair_of.induct) (auto split: sum.splits)

lemma getNewPairs_results:
  assumes "success (fst (getNewPairs up params s))"
    and "data (fst (getNewPairs up params s)) = Some pairs"
    and "v \<in> set pairs"
  shows "v \<noteq> Null \<and> (\<exists>t s'. v = fst (new_pair_lookup up t s'))"
  using assms
  by (auto simp: getNewPairs_def api_get_eq promise_all_eq Let_def ok_def failure_def
        split: sum.splits option.splits list.splits prod.splits dest: fan_out_set)


lemma js_insert_eq_insort:
  "insert_sorted (compare_by k) x ys = insort_key (\<lambda>p. - metric k p) x ys"
  by (induction ys) (simp_all add: compare_by_def)

lemma js_sort_eq_sort_key: "js_sort (compare_by k) xs = sort_key (\<lambda>p. - metric k p) xs"
proof -
  have "insert_sorted (compare_by k) = insort_key (\<lambda>p. - metric k p)"
    by (intro ext) (rule js_insert_eq_insort)
  then show ?thesis by (simp add: js_sort_def sort_key_def)
qed

lemma js_sort_descending:
  "sorted_wrt (\<lambda>a b. metric k a \<ge> metric k b) (js_sort (compare_by k) xs)"
proof -
  have "sorted (map (\<lambda>p. - metric k p) (sort_key (\<lambda>p. - metric k p) xs))"
    by (rule sorted_sort_key)
  then show ?thesis
    by (simp add: js_sort_eq_sort_key sorted_map)
qed

lemma js_sort_mset: "mset (js_sort (compare_by k) xs) = mset xs"
  by (simp add: js_sort_eq_sort_key)

lemma getPairsByChain_eq:
  assumes "snd (up (length (calls s)) (Get ''/latest/dex/search'' (Some (DexScreenerChainParams.chain params)))) = Inr d"
    and "data_pairs d = Inr found"
  shows "fst (getPairsByChain up params s) =
     ok (slice0
          ((case sortBy params of None \<Rightarrow> (\<lambda>xs. xs) | Some k \<Rightarrow> js_sort (compare_by k))
             (filter (\<lambda>p. toLowerCase (DexScreenerPair.chainId p)
                           = toLowerCase (DexScreenerChainParams.chain params)) found))
          (case DexScreenerChainParams.limit params of
             None \<Rightarrow> 20 | Some n \<Rightarrow> if n = 0 then 20 else n))"
  using assms
  by (simp add: getPairsByChain_def api_get_eq Let_def split: option.splits)


lemma example_liquidity [simp]: "liquidity_usd (example_pair c t l) = l"
  by (simp add: liquidity_usd_def example_pair_def)

lemma example_chainId [simp]: "DexScreenerPair.chainId (example_pair c t l) = c"
  by (simp add: example_pair_def)

lemma example_metric_liquidity [simp]: "metric SortLiquidity (example_pair c t l) = l"
  by (simp add: example_pair_def)

lemma pairs_mock_answer:
  "snd (pairs_mock (length (calls (new_client None 1000))) req)
     = Inr (Single (PairsBody (Some [shib, cake, pepe, weth_usdc])))"
  by (simp add: pairs_mock_def mock_upstream_def new_client_def)

lemma data_pairs_example [simp]: "data_pairs (Single (PairsBody (Some ps))) = Inr ps"
  by (simp add: data_pairs_def read_prop_def)

lemma is_digit_digit_char: "d < 10 \<Longrightarrow> is_digit (digit_char d)"
  unfolding is_digit_def digit_char_def by (rule nth_mem) simp

lemma decimal_digits: "list_all is_digit (decimal n)"
proof (induction n rule: decimal.induct)
  case (1 n)
  show ?case
  proof (cases "n < 10")
    case True
    then show ?thesis
      by (subst decimal.simps) (simp add: is_digit_digit_char)
  next
    case False
    then show ?thesis
      using "1.IH" by (subst decimal.simps) (simp add: is_digit_digit_char)
  qed
qed

lemma digit_not_point: "is_digit c \<Longrightarrow> c \<noteq> CHR ''.''"
  by (auto simp: is_digit_def)

lemma fraction_digits_point:
  assumes "list_all is_digit m" and "f \<le> length m" and "sign = [] \<or> sign = ''-''"
  shows "fraction_digits (sign @ take (length m - f) m @ ''.'' @ drop (length m - f) m) = Some f"
proof -
  have t: "\<forall>c \<in> set (take (length m - f) m). c \<noteq> CHR ''.''"
  proof
    fix c assume "c \<in> set (take (length m - f) m)"
    then have "c \<in> set m" by (rule in_set_takeD)
    with assms(1) have "is_digit c" by (simp add: list_all_iff)
    then show "c \<noteq> CHR ''.''" by (rule digit_not_point)
  qed
  have s: "\<forall>c \<in> set sign. c \<noteq> CHR ''.''"
    using assms(3) by auto
  have "\<forall>c \<in> set (sign @ take (length m - f) m). c \<noteq> CHR ''.''"
    using t s by auto
  then have "dropWhile (\<lambda>c. c \<noteq> CHR ''.'') ((sign @ take (length m - f) m) @ CHR ''.'' # drop (length m - f) m)
               = CHR ''.'' # drop (length m - f) m"
    by (simp add: dropWhile_append3)
  then have dw: "dropWhile (\<lambda>c. c \<noteq> CHR ''.'') (sign @ take (length m - f) m @ ''.'' @ drop (length m - f) m)
               = CHR ''.'' # drop (length m - f) m"
    by simp
  have "\<forall>c \<in> set (drop (length m - f) m). is_digit c"
  proof
    fix c assume "c \<in> set (drop (length m - f) m)"
    then have "c \<in> set m" by (rule in_set_dropD)
    with assms(1) show "is_digit c" by (simp add: list_all_iff)
  qed
  then have dg: "list_all is_digit (drop (length m - f) m)"
    by (simp add: list_all_iff)
  have ln: "length (drop (length m - f) m) = f"
    using assms(2) by simp
  show ?thesis
    unfolding fraction_digits_def dw using dg ln by simp
qed

lemma toFixed_fraction_digits:
  assumes "\<bar>r\<bar> < 10 ^ 21"
  shows "fraction_digits (toFixed ts (Finite r) f) = Some f"
proof -
  define m0 where "m0 = decimal (nat \<lfloor>\<bar>r\<bar> * 10 ^ f + 1 / 2\<rfloor>)"
  define m where "m = (if length m0 \<le> f then replicate (f + 1 - length m0) CHR ''0'' @ m0 else m0)"
  define sign where "sign = (if r < 0 then ''-'' else [])"
  have d: "list_all is_digit m"
    using decimal_digits [of "nat \<lfloor>\<bar>r\<bar> * 10 ^ f + 1 / 2\<rfloor>"]
    by (simp add: m_def m0_def list_all_iff is_digit_def)
  have l: "f \<le> length m"
    by (simp add: m_def)
  have s: "sign = [] \<or> sign = ''-''"
    by (simp add: sign_def)
  have "toFixed ts (Finite r) f = sign @ take (length m - f) m @ ''.'' @ drop (length m - f) m"
    using assms by (simp add: toFixed_def Let_def m_def m0_def sign_def)
  then show ?thesis
    using fraction_digits_point [OF d l s] by simp
qed

lemma replicate_numeral: "replicate (numeral k) x = x # replicate (pred_numeral k) x"
  by (simp only: numeral_eq_Suc replicate_Suc)

lemma decimal_examples:
  "decimal 10000 = ''10000''" "decimal 5000 = ''5000''" "decimal 1000 = ''1000''" "decimal 150 = ''150''"
  by (simp_all add: decimal.simps digit_char_def)

lemma rateLimit_spacing:
  "rateLimitDelay s \<le> clock (rateLimit s) - lastRequestTime s
   \<and> lastRequestTime (rateLimit s) = clock (rateLimit s)
   \<and> clock s \<le> clock (rateLimit s)"
  by (simp add: rateLimit_def sleep_def Let_def)




lemma getTrending_calls:
  assumes "snd (up (length (calls s)) (Get ''/token-boosts/top/v1'' None)) = Inr d"
  shows "calls (snd (getTrending up params s))
           = calls s @ (clock (rateLimit s), Get ''/token-boosts/top/v1'' None)
               # map (\<lambda>t. (clock (rateLimit s) + int (fst (up (length (calls s)) (Get ''/token-boosts/top/v1'' None))),
                            Get (tokens_v1_path t) None))
                   (filter (\<lambda>v. \<not> nullish v)
                      (slice0 (as_array d) (num_or (DexScreenerTrendingParams.limit params) 10)))"
  using assms
  by (simp add: getTrending_def api_get_eq promise_all_eq Let_def
        fan_out_state [of "trending_lookup up", OF lookup_state(1)])


section \<open>The claims\<close>







text \<open>
  C3. Every entry of the list of a successful \<^verbatim>\<open>getNewPairs\<close> is the first pair \<open>p\<close> of
  the answer to some lookup, relabelled: its labels are a list that contains "new", namely
  the labels of \<open>p\<close> themselves when they contain "new" already (a pair is then returned as
  it came), the labels of \<open>p\<close> followed by "new" when they do not, and just "new" when \<open>p\<close>
  has none.
\<close>

theorem getNewPairs_carry_new_label:
  assumes "success (fst (getNewPairs up params s))"
    and "data (fst (getNewPairs up params s)) = Some pairs"
    and "v \<in> set pairs"
  shows "\<exists>n token p rest ls.
           snd (up n (Get (tokens_v1_path token) None)) = Inr (Array (p # rest))
         \<and> with_new_label p = Inr v
         \<and> own_labels v = Some ls \<and> ''new'' \<in> set ls
         \<and> ls = (case own_labels p of
                   None \<Rightarrow> [''new'']
                 | Some old \<Rightarrow> if ''new'' \<in> set old then old else old @ [''new''])
         \<and> (\<forall>q old. p = PairObj q \<and> labels q = Some old \<and> ''new'' \<in> set old \<longrightarrow> v = p)"
proof -
  from getNewPairs_results [OF assms]
  obtain t s' where v: "v \<noteq> Null" "v = fst (new_pair_lookup up t s')" by blast
  then have "\<not> nullish t"
    by (auto simp: new_pair_lookup_fst)
  with v have "new_pair_of (snd (up (length (calls s')) (Get (tokens_v1_path t) None))) = v"
    by (simp add: new_pair_lookup_fst)
  from new_pair_of_cases [OF this v(1)]
  obtain p rest where p: "snd (up (length (calls s')) (Get (tokens_v1_path t) None)) = Inr (Array (p # rest))"
      "with_new_label p = Inr v" by blast
  from with_new_label_labels [OF p(2)]
  obtain ls where ls: "own_labels v = Some ls" "''new'' \<in> set ls"
     "ls = (case own_labels p of None \<Rightarrow> [''new'']
             | Some old \<Rightarrow> if ''new'' \<in> set old then old else old @ [''new''])" by blast
  have "\<forall>q old. p = PairObj q \<and> labels q = Some old \<and> ''new'' \<in> set old \<longrightarrow> v = p"
    using p(2) with_new_label_untouched by blast
  with p ls show ?thesis by blast
qed

theorem getNewPairs_carry_new_label_witness:
  "success (fst (getNewPairs new_pairs_mock \<lparr>chain = None, limit = None\<rparr> (new_client None 1000)))
   \<and> data (fst (getNewPairs new_pairs_mock \<lparr>chain = None, limit = None\<rparr> (new_client None 1000)))
        = Some [PairObj (pepe\<lparr>labels := Some [''new'']\<rparr>)]
   \<and> (\<exists>n token p rest ls.
           snd (new_pairs_mock n (Get (tokens_v1_path token) None)) = Inr (Array (p # rest))
         \<and> with_new_label p = Inr (PairObj (pepe\<lparr>labels := Some [''new'']\<rparr>))
         \<and> own_labels (PairObj (pepe\<lparr>labels := Some [''new'']\<rparr>)) = Some ls \<and> ''new'' \<in> set ls)"
proof -
  have e: "fst (getNewPairs new_pairs_mock \<lparr>chain = None, limit = None\<rparr> (new_client None 1000))
      = ok [PairObj (pepe\<lparr>labels := Some [''new'']\<rparr>)]"
    by (simp add: getNewPairs_def api_get_eq promise_all_eq Let_def new_pairs_mock_def
          mock_upstream_def new_client_def num_or_def slice0_def fan_out_Cons new_pair_lookup_fst
          lookup_state tokens_v1_path_def example_profile_def with_new_label_def read_prop_def
          pepe_def example_pair_def del: fan_out.simps(2))
  have h1: "success (fst (getNewPairs new_pairs_mock \<lparr>chain = None, limit = None\<rparr> (new_client None 1000)))"
    by (simp add: e ok_def)
  have h2: "data (fst (getNewPairs new_pairs_mock \<lparr>chain = None, limit = None\<rparr> (new_client None 1000)))
        = Some [PairObj (pepe\<lparr>labels := Some [''new'']\<rparr>)]"
    by (simp add: e ok_def)
  have h3: "PairObj (pepe\<lparr>labels := Some [''new'']\<rparr>) \<in> set [PairObj (pepe\<lparr>labels := Some [''new'']\<rparr>)]"
    by simp
  show ?thesis
    using getNewPairs_carry_new_label [OF h1 h2 h3] h1 h2 by blast
qed

text \<open>
  C4 (as amended). When the search succeeds, \<^verbatim>\<open>getPairsByChain\<close> returns the first pairs of
  a list \<open>ordered\<close> that holds exactly the found pairs whose chain identifier equals the
  requested chain up to case: in their found order when no sort key is given, in
  descending order of the metric of the sort key otherwise (the transaction count being
  the buys plus the sells of the 24h window); the first \<open>limit\<close> of them for a positive
  limit, the first 20 for a limit that is missing or 0. Whatever the limit, every pair
  returned is on the requested chain.
\<close>

theorem getPairsByChain_filters_sorts_truncates:
  assumes "snd (up (length (calls s)) (Get ''/latest/dex/search'' (Some (DexScreenerChainParams.chain params)))) = Inr d"
    and "data_pairs d = Inr found"
  shows "\<exists>ordered.
       mset ordered = mset (filter (\<lambda>p. toLowerCase (DexScreenerPair.chainId p)
                                      = toLowerCase (DexScreenerChainParams.chain params)) found)
     \<and> (sortBy params = None \<longrightarrow>
           ordered = filter (\<lambda>p. toLowerCase (DexScreenerPair.chainId p)
                                      = toLowerCase (DexScreenerChainParams.chain params)) found)
     \<and> (\<forall>k. sortBy params = Some k \<longrightarrow> sorted_wrt (\<lambda>a b. metric k a \<ge> metric k b) ordered)
     \<and> (\<forall>n. DexScreenerChainParams.limit params = Some n \<and> 0 < n \<longrightarrow>
           fst (getPairsByChain up params s) = ok (take (nat n) ordered))
     \<and> (DexScreenerChainParams.limit params = None \<or> DexScreenerChainParams.limit params = Some 0 \<longrightarrow>
           fst (getPairsByChain up params s) = ok (take 20 ordered))
     \<and> (\<forall>pairs p. data (fst (getPairsByChain up params s)) = Some pairs \<and> p \<in> set pairs \<longrightarrow>
           toLowerCase (DexScreenerPair.chainId p) = toLowerCase (DexScreenerChainParams.chain params))"
proof -
  let ?matching = "filter (\<lambda>p. toLowerCase (DexScreenerPair.chainId p)
                                = toLowerCase (DexScreenerChainParams.chain params)) found"
  let ?ordered = "(case sortBy params of None \<Rightarrow> (\<lambda>xs. xs) | Some k \<Rightarrow> js_sort (compare_by k)) ?matching"
  let ?e = "case DexScreenerChainParams.limit params of None \<Rightarrow> 20 | Some n \<Rightarrow> if n = 0 then 20 else n"
  note eq = getPairsByChain_eq [where up=up and s=s and d=d and params=params, OF assms]
  have m: "mset ?ordered = mset ?matching"
    by (simp add: js_sort_mset split: option.splits)
  have n: "sortBy params = None \<longrightarrow> ?ordered = ?matching"
    by simp
  have srt: "\<forall>k. sortBy params = Some k \<longrightarrow> sorted_wrt (\<lambda>a b. metric k a \<ge> metric k b) ?ordered"
    by (simp add: js_sort_descending)
  have pos: "\<forall>n. DexScreenerChainParams.limit params = Some n \<and> 0 < n \<longrightarrow>
           fst (getPairsByChain up params s) = ok (take (nat n) ?ordered)"
    using eq by (auto simp: slice0_def)
  have dflt: "DexScreenerChainParams.limit params = None \<or> DexScreenerChainParams.limit params = Some 0 \<longrightarrow>
           fst (getPairsByChain up params s) = ok (take 20 ?ordered)"
    using eq by (auto simp: slice0_def)
  have "set (slice0 ?ordered ?e) \<subseteq> set ?ordered"
    by (auto simp: slice0_def dest: in_set_takeD)
  moreover have "set ?ordered = set ?matching"
    using m by (rule mset_eq_setD)
  ultimately have ch: "\<forall>pairs p. data (fst (getPairsByChain up params s)) = Some pairs \<and> p \<in> set pairs \<longrightarrow>
           toLowerCase (DexScreenerPair.chainId p) = toLowerCase (DexScreenerChainParams.chain params)"
    using eq by (auto simp: ok_def)
  show ?thesis
    by (rule exI [of _ ?ordered]) (intro conjI m n srt pos dflt ch)
qed

theorem getPairsByChain_filters_sorts_truncates_witness:
  "snd (pairs_mock (length (calls (new_client None 1000)))
          (Get ''/latest/dex/search''
             (Some (DexScreenerChainParams.chain \<lparr>DexScreenerChainParams.chain = ''ethereum'', sortBy = Some SortLiquidity, limit = Some 2\<rparr>))))
     = Inr (Single (PairsBody (Some [shib, cake, pepe, weth_usdc])))
   \<and> data_pairs (Single (PairsBody (Some [shib, cake, pepe, weth_usdc]))) = Inr [shib, cake, pepe, weth_usdc]
   \<and> (\<exists>ordered. mset ordered = mset [shib, pepe, weth_usdc]
         \<and> sorted_wrt (\<lambda>a b. metric SortLiquidity a \<ge> metric SortLiquidity b) ordered
         \<and> fst (getPairsByChain pairs_mock \<lparr>DexScreenerChainParams.chain = ''ethereum'', sortBy = Some SortLiquidity, limit = Some 2\<rparr>
                  (new_client None 1000)) = ok (take (nat 2) ordered))
   \<and> fst (getPairsByChain pairs_mock \<lparr>DexScreenerChainParams.chain = ''ethereum'', sortBy = Some SortLiquidity, limit = Some 2\<rparr>
            (new_client None 1000)) = ok [pepe, weth_usdc]"
proof -
  let ?params = "\<lparr>DexScreenerChainParams.chain = ''ethereum'', sortBy = Some SortLiquidity, limit = Some 2\<rparr>"
  let ?found = "[shib, cake, pepe, weth_usdc]"
  have h1: "snd (pairs_mock (length (calls (new_client None 1000)))
          (Get ''/latest/dex/search'' (Some (DexScreenerChainParams.chain ?params))))
     = Inr (Single (PairsBody (Some ?found)))"
    by (rule pairs_mock_answer)
  have h2: "data_pairs (Single (PairsBody (Some ?found))) = Inr ?found"
    by simp
  have f: "filter (\<lambda>p. toLowerCase (DexScreenerPair.chainId p)
                         = toLowerCase (DexScreenerChainParams.chain ?params)) ?found
             = [shib, pepe, weth_usdc]"
    by (simp add: shib_def cake_def pepe_def weth_usdc_def toLowerCase_def lower_char_def)
  from getPairsByChain_filters_sorts_truncates [where up=pairs_mock and s="new_client None 1000", OF h1 h2]
  obtain ordered where o:
    "mset ordered = mset (filter (\<lambda>p. toLowerCase (DexScreenerPair.chainId p)
                         = toLowerCase (DexScreenerChainParams.chain ?params)) ?found)"
    "\<forall>k. sortBy ?params = Some k \<longrightarrow> sorted_wrt (\<lambda>a b. metric k a \<ge> metric k b) ordered"
    "\<forall>n. DexScreenerChainParams.limit ?params = Some n \<and> 0 < n \<longrightarrow>
       fst (getPairsByChain pairs_mock ?params (new_client None 1000)) = ok (take (nat n) ordered)"
    by blast
  have 1: "\<exists>ordered. mset ordered = mset [shib, pepe, weth_usdc]
         \<and> sorted_wrt (\<lambda>a b. metric SortLiquidity a \<ge> metric SortLiquidity b) ordered
         \<and> fst (getPairsByChain pairs_mock ?params (new_client None 1000)) = ok (take (nat 2) ordered)"
    using o f by (intro exI [of _ ordered]) simp
  have 2: "fst (getPairsByChain pairs_mock ?params (new_client None 1000)) = ok [pepe, weth_usdc]"
    using getPairsByChain_eq [where up=pairs_mock and s="new_client None 1000" and params="?params", OF h1 h2] f
    by (simp add: js_sort_def compare_by_def slice0_def shib_def pepe_def weth_usdc_def
          example_pair_def)
  from h1 h2 1 2 show ?thesis by blast
qed

text \<open>
  C4 as stated fails for the limit 0: \<^verbatim>\<open>params.limit ? ... : pairs.slice(0, 20)\<close> takes 0
  for a missing limit, so up to 20 pairs come back where the limit allows none.
\<close>

theorem getPairsByChain_limit_zero_counterexample:
  "fst (getPairsByChain pairs_mock \<lparr>DexScreenerChainParams.chain = ''ethereum'', sortBy = None, limit = Some 0\<rparr> (new_client None 1000))
     = ok [shib, pepe, weth_usdc]
   \<and> \<not> length [shib, pepe, weth_usdc] \<le> nat 0"
proof -
  let ?params = "\<lparr>DexScreenerChainParams.chain = ''ethereum'', sortBy = None, limit = Some 0\<rparr>"
  let ?found = "[shib, cake, pepe, weth_usdc]"
  have h1: "snd (pairs_mock (length (calls (new_client None 1000)))
          (Get ''/latest/dex/search'' (Some (DexScreenerChainParams.chain ?params))))
     = Inr (Single (PairsBody (Some ?found)))"
    by (rule pairs_mock_answer)
  have h2: "data_pairs (Single (PairsBody (Some ?found))) = Inr ?found"
    by simp
  have f: "filter (\<lambda>p. toLowerCase (DexScreenerPair.chainId p)
                         = toLowerCase (DexScreenerChainParams.chain ?params)) ?found
             = [shib, pepe, weth_usdc]"
    by (simp add: shib_def cake_def pepe_def weth_usdc_def toLowerCase_def lower_char_def)
  show ?thesis
    using getPairsByChain_eq [where up=pairs_mock and s="new_client None 1000" and params="?params", OF h1 h2] f
    by (simp add: slice0_def)
qed

text \<open>
  C5. \<^verbatim>\<open>getMultipleTokens\<close> refuses a list of more than 30 addresses with the message
  "Maximum 30 token addresses allowed" and leaves the client as it was, so no request is
  sent; for a list of at most 30 addresses it sends exactly one request, for the path
  \<^verbatim>\<open>/tokens/v1/<chain>/<addresses joined by commas>\<close>.
\<close>

theorem getMultipleTokens_max_30:
  "(length as > 30 \<longrightarrow>
      getMultipleTokens up c as s = (failure ''Maximum 30 token addresses allowed'', s))
   \<and> (length as \<le> 30 \<longrightarrow>
      (\<exists>t. calls (snd (getMultipleTokens up c as s))
         = calls s @ [(t, Get (''/tokens/v1/'' @ c @ ''/'' @ join_comma as) None)]))"
  by (auto simp: getMultipleTokens_def api_get_eq Let_def split: sum.splits)

theorem getMultipleTokens_max_30_witness:
  "length (replicate 31 ''0x123'') > 30
   \<and> getMultipleTokens (mock_upstream 0 []) ''ethereum'' (replicate 31 ''0x123'') (new_client None 0)
       = (failure ''Maximum 30 token addresses allowed'', new_client None 0)
   \<and> length [''0x123'', ''0x456''] \<le> 30
   \<and> (\<exists>t. calls (snd (getMultipleTokens (mock_upstream 0 [Inr (Array [])]) ''ethereum''
                [''0x123'', ''0x456''] (new_client None 0)))
         = calls (new_client None 0) @ [(t, Get ''/tokens/v1/ethereum/0x123,0x456'' None)])"
  using getMultipleTokens_max_30 [of "replicate 31 ''0x123''" "mock_upstream 0 []" "''ethereum''" "new_client None 0"]
        getMultipleTokens_max_30 [of "[''0x123'', ''0x456'']" "mock_upstream 0 [Inr (Array [])]" "''ethereum''" "new_client None 0"]
  by simp

text \<open>
  C6 (as amended). For every finite price \<open>p\<close> with \<open>1 \<le> p < 10\<^sup>2\<^sup>1\<close>, \<^verbatim>\<open>formatPrice(p)\<close>
  has exactly 2 digits after its decimal point; with \<open>0.01 \<le> p < 1\<close>, exactly 4; with
  \<open>-10\<^sup>2\<^sup>1 < p < 0.01\<close>, exactly 8; and a string is formatted as the number that
  \<^verbatim>\<open>parseFloat\<close> reads from it.
\<close>

theorem formatPrice_fraction_digits:
  "(1 \<le> r \<and> r < 10 ^ 21 \<longrightarrow> fraction_digits (formatPrice pf ts (Inr (Finite r))) = Some 2)
   \<and> (1 / 100 \<le> r \<and> r < 1 \<longrightarrow> fraction_digits (formatPrice pf ts (Inr (Finite r))) = Some 4)
   \<and> (- (10 ^ 21) < r \<and> r < 1 / 100 \<longrightarrow> fraction_digits (formatPrice pf ts (Inr (Finite r))) = Some 8)
   \<and> formatPrice pf ts (Inl text) = formatPrice pf ts (Inr (pf text))"
proof (intro conjI impI)
  assume "1 \<le> r \<and> r < 10 ^ 21"
  then show "fraction_digits (formatPrice pf ts (Inr (Finite r))) = Some 2"
    by (simp add: formatPrice_def toFixed_fraction_digits)
next
  assume "1 / 100 \<le> r \<and> r < 1"
  then show "fraction_digits (formatPrice pf ts (Inr (Finite r))) = Some 4"
    by (simp add: formatPrice_def toFixed_fraction_digits)
next
  assume "- (10 ^ 21) < r \<and> r < 1 / 100"
  then have "\<bar>r\<bar> < 10 ^ 21" by (simp add: abs_less_iff)
  then show "fraction_digits (formatPrice pf ts (Inr (Finite r))) = Some 8"
    using \<open>- (10 ^ 21) < r \<and> r < 1 / 100\<close>
    by (simp add: formatPrice_def toFixed_fraction_digits)
next
  show "formatPrice pf ts (Inl text) = formatPrice pf ts (Inr (pf text))"
    by (simp add: formatPrice_def)
qed

theorem formatPrice_fraction_digits_witness:
  "(1::real) \<le> 100 \<and> (100::real) < 10 ^ 21
   \<and> fraction_digits (formatPrice parseFloat_example String_at_1e21 (Inr (Finite 100))) = Some 2
   \<and> formatPrice parseFloat_example String_at_1e21 (Inr (Finite 100)) = ''100.00''
   \<and> (1::real) / 100 \<le> 5 / 10 \<and> (5::real) / 10 < 1
   \<and> fraction_digits (formatPrice parseFloat_example String_at_1e21 (Inr (Finite (5 / 10)))) = Some 4
   \<and> formatPrice parseFloat_example String_at_1e21 (Inr (Finite (5 / 10))) = ''0.5000''
   \<and> - (10 ^ 21) < (1::real) / 100000 \<and> (1::real) / 100000 < 1 / 100
   \<and> fraction_digits (formatPrice parseFloat_example String_at_1e21 (Inr (Finite (1 / 100000)))) = Some 8
   \<and> formatPrice parseFloat_example String_at_1e21 (Inr (Finite (1 / 100000))) = ''0.00001000''
   \<and> formatPrice parseFloat_example String_at_1e21 (Inl ''1.5'') = ''1.50''"
proof -
  have a: "(1::real) \<le> 100 \<and> (100::real) < 10 ^ 21" by simp
  have b: "(1::real) / 100 \<le> 5 / 10 \<and> (5::real) / 10 < 1" by simp
  have c: "- (10 ^ 21) < (1::real) / 100000 \<and> (1::real) / 100000 < 1 / 100" by simp
  have v1: "formatPrice parseFloat_example String_at_1e21 (Inr (Finite 100)) = ''100.00''"
    by (simp add: formatPrice_def toFixed_def Let_def decimal_examples replicate_numeral)
  have v2: "formatPrice parseFloat_example String_at_1e21 (Inr (Finite (5 / 10))) = ''0.5000''"
    by (simp add: formatPrice_def toFixed_def Let_def decimal_examples replicate_numeral)
  have v3: "formatPrice parseFloat_example String_at_1e21 (Inr (Finite (1 / 100000))) = ''0.00001000''"
    by (simp add: formatPrice_def toFixed_def Let_def decimal_examples replicate_numeral)
  have v4: "formatPrice parseFloat_example String_at_1e21 (Inr (parseFloat_example ''1.5'')) = ''1.50''"
    by (simp add: formatPrice_def toFixed_def Let_def decimal_examples parseFloat_example_def)
  note t = formatPrice_fraction_digits [of _ parseFloat_example String_at_1e21]
  show ?thesis
    using t [of 100 "''1.5''"] t [of "5 / 10" "''1.5''"] t [of "1 / 100000" "''1.5''"] a b c v1 v2 v3 v4
    by simp
qed

text \<open>
  C6 as stated fails for large and for infinite prices: from \<open>10\<^sup>2\<^sup>1\<close> on \<^verbatim>\<open>toFixed\<close> prints
  as \<^verbatim>\<open>String\<close> does, so \<^verbatim>\<open>formatPrice(1e21)\<close> is "1e+21", and \<^verbatim>\<open>formatPrice(Infinity)\<close> is
  "Infinity"; neither has a decimal point.
\<close>

theorem formatPrice_large_counterexample:
  "(1::real) \<le> 10 ^ 21
   \<and> formatPrice parseFloat_example String_at_1e21 (Inr (Finite (10 ^ 21))) = ''1e+21''
   \<and> fraction_digits ''1e+21'' = None
   \<and> num_ge PosInfinity 1
   \<and> formatPrice parseFloat_example String_at_1e21 (Inr PosInfinity) = ''Infinity''
   \<and> fraction_digits ''Infinity'' = None"
  by (simp add: formatPrice_def toFixed_def String_at_1e21_def fraction_digits_def)



text \<open>
  C8. The claim fails on the code: \<^verbatim>\<open>rateLimit\<close> runs once at the start of \<^verbatim>\<open>getTrending\<close>,
  not before the lookups of its fan-out. With the default delay of 100 ms and an upstream
  that answers after 250 ms, the two lookups for two promoted tokens leave at the same
  clock reading, 0 ms apart.
\<close>

theorem getTrending_lookups_unpaced:
  "rateLimitDelay (new_client None 1000) = 100
   \<and> calls (snd (getTrending trending_mock \<lparr>timeframe = None, limit = None\<rparr> (new_client None 1000)))
        = [(1000, Get ''/token-boosts/top/v1'' None),
           (1250, Get ''/tokens/v1/ethereum/0x123'' None),
           (1250, Get ''/tokens/v1/ethereum/0x456'' None)]"
proof -
  have h1: "snd (trending_mock (length (calls (new_client None 1000))) (Get ''/token-boosts/top/v1'' None))
     = Inr (Array [BoostObj (example_boost ''ethereum'' ''0x123''), BoostObj (example_boost ''ethereum'' ''0x456'')])"
    by (simp add: trending_mock_def mock_upstream_def new_client_def)
  have c: "clock (rateLimit (new_client None 1000)) = 1000"
    by (simp add: rateLimit_def sleep_def new_client_def Let_def)
  have l: "fst (trending_mock (length (calls (new_client None 1000))) (Get ''/token-boosts/top/v1'' None)) = 250"
    by (simp add: trending_mock_def mock_upstream_def)
  show ?thesis
    using getTrending_calls [where up=trending_mock and s="new_client None 1000"
             and params="\<lparr>timeframe = None, limit = None\<rparr>", OF h1]
    by (simp add: c l slice0_def num_or_def) (simp add: new_client_def)
qed



text \<open>
  C10. Two calls of \<^verbatim>\<open>getTrending\<close> that differ only in the timeframe return the same
  result and leave the client in the same state, so they send the same requests; in the
  trending action two different timeframe matches give the same client state and the same
  response up to its heading.
\<close>

theorem getTrending_ignores_timeframe:
  "getTrending up (params\<lparr>timeframe := tf1\<rparr>) s = getTrending up (params\<lparr>timeframe := tf2\<rparr>) s
   \<and> snd (getTrending_handler up m1 lm s) = snd (getTrending_handler up m2 lm s)
   \<and> map_sum id without_heading (fst (getTrending_handler up m1 lm s))
       = map_sum id without_heading (fst (getTrending_handler up m2 lm s))"
  by (auto simp: getTrending_def getTrending_handler_def Let_def
        split: prod.splits sum.splits option.splits)

end
